theory Spec2Isabelle
  imports Main
begin

section \<open>Values of a class namespace\<close>

text \<open>
  The metaclass \<open>MetaAlgorithm\<close> of the two notebooks receives the namespace of a class
  body, a Python \<open>dict\<close> from attribute names to arbitrary objects, and inspects three of
  its entries with \<open>isinstance\<close>. The objects are modelled by their runtime type, which is
  all that \<open>isinstance\<close> and \<open>callable\<close> look at (Python 3.8, the kernel of the notebooks).
\<close>

datatype pyval =
    PyNone
  | PyBool bool
  | PyInt int
  | PyStr string
  | PyStrSubclass string string
  | PyFunction string
  | PyBuiltinFunction string
  | PyBoundMethod string
  | PyClass string
  | PyStaticMethod pyval
  | PyClassMethod pyval
  | PyInstance string bool

text \<open>
  \<open>PyStrSubclass c s\<close> is an instance of a user class \<open>c\<close> derived from \<open>str\<close>;
  \<open>PyFunction f\<close> is what \<open>def\<close> and \<open>lambda\<close> create (\<open>types.FunctionType\<close>, which cannot
  be subclassed); \<open>PyInstance c has_call\<close> is an instance of a user class \<open>c\<close>, callable
  when the class defines \<open>__call__\<close>.
\<close>

fun isinstance_str :: "pyval \<Rightarrow> bool" where
  "isinstance_str (PyStr s) = True"
| "isinstance_str (PyStrSubclass c s) = True"
| "isinstance_str v = False"

fun isinstance_FunctionType :: "pyval \<Rightarrow> bool" where
  "isinstance_FunctionType (PyFunction f) = True"
| "isinstance_FunctionType v = False"

fun callable_py :: "pyval \<Rightarrow> bool" where
  "callable_py (PyFunction f) = True"
| "callable_py (PyBuiltinFunction f) = True"
| "callable_py (PyBoundMethod f) = True"
| "callable_py (PyClass c) = True"
| "callable_py (PyInstance c has_call) = has_call"
| "callable_py v = False"

type_synonym attrs = "string \<rightharpoonup> pyval"

datatype py_exception = RuntimeError string

section \<open>The metaclass\<close>

text \<open>
  Both notebooks test each required entry with an expression of the shape
  \<^verbatim>\<open>'k' not in attrs or not isinstance(attrs['k'], T)\<close>.
  Python's \<open>or\<close> evaluates \<open>attrs['k']\<close> only when the key is present, so the lookup never
  raises \<open>KeyError\<close>.
\<close>

definition not_in_or_not_isinstance :: "attrs \<Rightarrow> string \<Rightarrow> (pyval \<Rightarrow> bool) \<Rightarrow> bool" where
  "not_in_or_not_isinstance attrs key isinstance_T =
     (case attrs key of None \<Rightarrow> True | Some v \<Rightarrow> \<not> isinstance_T v)"

text \<open>
  \<open>super(MetaAlgorithm, cls).__new__(cls, clsname, bases, attrs)\<close> is \<open>type.__new__\<close>, a
  primitive of the host language and not code of the notebooks. It is the parameter
  \<open>type_new\<close>: from the name, the bases, the namespace and the state of the interpreter
  (type \<open>'s\<close>) it yields the class object (type \<open>'d\<close>) and the new state. Exceptions that
  the primitive raises on its own account, such as a \<open>TypeError\<close> for inconsistent bases,
  are not raised by the notebooks' code; a caller who wants them takes a sum for \<open>'d\<close>.
\<close>

type_synonym ('b, 's, 'd) type_new = "string \<Rightarrow> 'b \<Rightarrow> attrs \<Rightarrow> 's \<Rightarrow> 'd \<times> 's"

type_synonym ('b, 's, 'd) metaclass_new =
  "string \<Rightarrow> 'b \<Rightarrow> attrs \<Rightarrow> 's \<Rightarrow> (py_exception + 'd) \<times> 's"

definition raise :: "py_exception \<Rightarrow> 's \<Rightarrow> (py_exception + 'd) \<times> 's" where
  "raise e s = (Inl e, s)"

definition super_new :: "('b, 's, 'd) type_new \<Rightarrow> ('b, 's, 'd) metaclass_new" where
  "super_new type_new clsname bases attrs s =
     (case type_new clsname bases attrs s of (d, s') \<Rightarrow> (Inr d, s'))"

text \<open>\<open>MetaAlgorithm.__new__\<close> of \<^verbatim>\<open>src/unnamed/part_000\<close>.\<close>

definition MetaAlgorithm_new :: "('b, 's, 'd) type_new \<Rightarrow> ('b, 's, 'd) metaclass_new" where
  "MetaAlgorithm_new type_new clsname bases attrs s =
     (if clsname \<noteq> ''Algorithm'' then
        if not_in_or_not_isinstance attrs ''contributor'' isinstance_str then
          raise (RuntimeError ''missing contributor'') s
        else if not_in_or_not_isinstance attrs ''train'' isinstance_FunctionType then
          raise (RuntimeError ''missing training method'') s
        else if not_in_or_not_isinstance attrs ''classify'' isinstance_FunctionType then
          raise (RuntimeError ''missing classification method'') s
        else super_new type_new clsname bases attrs s
      else super_new type_new clsname bases attrs s)"

text \<open>\<open>MetaAlgorithm.__new__\<close> of \<^verbatim>\<open>src/static-checking-via-metaclasses.ipynb\<close>.\<close>

definition MetaAlgorithm_new_ipynb :: "('b, 's, 'd) type_new \<Rightarrow> ('b, 's, 'd) metaclass_new" where
  "MetaAlgorithm_new_ipynb type_new clsname bases attrs s =
     (if clsname \<noteq> ''Algorithm'' then
        if not_in_or_not_isinstance attrs ''contributor'' isinstance_str then
          raise (RuntimeError ''missing contributor information'') s
        else if not_in_or_not_isinstance attrs ''train'' isinstance_FunctionType then
          raise (RuntimeError ''missing training method'') s
        else if not_in_or_not_isinstance attrs ''classify'' isinstance_FunctionType then
          raise (RuntimeError ''missing classification method'') s
        else super_new type_new clsname bases attrs s
      else super_new type_new clsname bases attrs s)"

section \<open>Failure kinds\<close>

text \<open>
  The three \<open>raise\<close> statements all raise \<open>RuntimeError\<close> and differ in the message only.
  The failure kind of an exception is the rule whose \<open>raise\<close> statement carries its
  message; the contributor rule has a different message in each notebook.
\<close>

datatype failure = MissingContributor | MissingTrainMethod | MissingClassifyMethod

fun failure_kind :: "py_exception \<Rightarrow> failure option" where
  "failure_kind (RuntimeError msg) =
     (if msg = ''missing contributor'' \<or> msg = ''missing contributor information''
        then Some MissingContributor
      else if msg = ''missing training method'' then Some MissingTrainMethod
      else if msg = ''missing classification method'' then Some MissingClassifyMethod
      else None)"

section \<open>A class constructor\<close>

text \<open>
  Modelled from the spec: the underlying class-descriptor constructor (\<open>type.__new__\<close>),
  which is a primitive of the host and absent from the notebooks. Following the data
  model of the spec, a class descriptor is a name, a sequence of parent descriptors and
  an attribute table, and the interpreter state is the registry of the descriptors
  defined so far. It serves as a concrete instance of the parameter \<open>type_new\<close>.
\<close>

datatype descriptor =
  Descriptor (d_name: string) (d_bases: "descriptor list") (d_attrs: attrs)

definition type_new_model :: "(descriptor list, descriptor list, descriptor) type_new" where
  "type_new_model clsname bases attrs registry =
     (Descriptor clsname bases attrs, registry @ [Descriptor clsname bases attrs])"

section \<open>The rule set\<close>

text \<open>
  The three checks of \<open>__new__\<close> as a list, in the order of the code: each rule names
  the failure kind of its \<open>raise\<close> statement, the key it looks up and the type test it
  applies. \<open>first_failure\<close> is the kind of the first rule of the list that a namespace
  does not satisfy.
\<close>

definition has_kind :: "attrs \<Rightarrow> string \<Rightarrow> (pyval \<Rightarrow> bool) \<Rightarrow> bool" where
  "has_kind attrs key kind = (case attrs key of None \<Rightarrow> False | Some v \<Rightarrow> kind v)"

definition validation_rules :: "(failure \<times> (attrs \<Rightarrow> bool)) list" where
  "validation_rules =
     [(MissingContributor, \<lambda>attrs. has_kind attrs ''contributor'' isinstance_str),
      (MissingTrainMethod, \<lambda>attrs. has_kind attrs ''train'' isinstance_FunctionType),
      (MissingClassifyMethod, \<lambda>attrs. has_kind attrs ''classify'' isinstance_FunctionType)]"

definition first_failure :: "attrs \<Rightarrow> failure option" where
  "first_failure attrs =
     map_option fst (find (\<lambda>(kind, rule). \<not> rule attrs) validation_rules)"

text \<open>
  The outcome of a call with the exception replaced by its failure kind: what the two
  notebooks have in common when their messages differ.
\<close>

definition outcome :: "(py_exception + 'd) \<times> 's \<Rightarrow> (failure option + 'd) \<times> 's" where
  "outcome r = (case r of (Inl e, s) \<Rightarrow> (Inl (failure_kind e), s) | (Inr d, s) \<Rightarrow> (Inr d, s))"

section \<open>The life cycle of a class definition\<close>

text \<open>
  A \<open>class\<close> statement collects the name, the bases and the namespace and calls the
  metaclass once. When \<open>__new__\<close> returns, the class exists and can be instantiated; when
  it raises, the statement is abandoned with the exception. \<open>definition_step\<close> is that one
  call; \<open>definition_run k\<close> makes up to \<open>k\<close> steps and stops where none is left.
  \<open>class_of\<close> is the class object that an instance construction needs. The three
  states bear the names of the specification's state machine.
\<close>

datatype ('b, 'd) lifecycle =
    Unvalidated string 'b attrs
  | Validated 'd
  | Rejected py_exception

fun definition_step ::
  "('b, 's, 'd) metaclass_new \<Rightarrow> ('b, 'd) lifecycle \<times> 's \<Rightarrow> (('b, 'd) lifecycle \<times> 's) option"
where
  "definition_step new (Unvalidated clsname bases attrs, s) =
     (case new clsname bases attrs s of
        (Inl e, s') \<Rightarrow> Some (Rejected e, s')
      | (Inr d, s') \<Rightarrow> Some (Validated d, s'))"
| "definition_step new (Validated d, s) = None"
| "definition_step new (Rejected e, s) = None"

fun definition_run ::
  "nat \<Rightarrow> ('b, 's, 'd) metaclass_new \<Rightarrow> ('b, 'd) lifecycle \<times> 's \<Rightarrow> ('b, 'd) lifecycle \<times> 's"
where
  "definition_run 0 new c = c"
| "definition_run (Suc k) new c =
     (case definition_step new c of None \<Rightarrow> c | Some c' \<Rightarrow> definition_run k new c')"

fun class_of :: "('b, 'd) lifecycle \<Rightarrow> 'd option" where
  "class_of (Validated d) = Some d"
| "class_of l = None"

section \<open>Validating the same definition again\<close>

text \<open>
  \<open>revalidate k\<close> calls the metaclass \<open>k\<close> times in a row on the same name, bases and
  namespace, each call starting in the state the previous one left, and lists the
  verdicts: \<open>None\<close> for a class produced, \<open>Some e\<close> for the exception raised.
\<close>

fun verdict :: "py_exception + 'd \<Rightarrow> py_exception option" where
  "verdict (Inl e) = Some e"
| "verdict (Inr d) = None"

fun revalidate ::
  "nat \<Rightarrow> ('b, 's, 'd) metaclass_new \<Rightarrow> string \<Rightarrow> 'b \<Rightarrow> attrs \<Rightarrow> 's \<Rightarrow> py_exception option list"
where
  "revalidate 0 new clsname bases attrs s = []"
| "revalidate (Suc k) new clsname bases attrs s =
     (case new clsname bases attrs s of
        (r, s') \<Rightarrow> verdict r # revalidate k new clsname bases attrs s')"

section \<open>Evaluating the checks\<close>

lemma not_in_or_not_isinstance_None:
  "attrs key = None \<Longrightarrow> not_in_or_not_isinstance attrs key T"
  by (simp add: not_in_or_not_isinstance_def)

lemma not_in_or_not_isinstance_Some:
  "attrs key = Some v \<Longrightarrow> not_in_or_not_isinstance attrs key T = (\<not> T v)"
  by (simp add: not_in_or_not_isinstance_def)

lemma FunctionType_callable: "isinstance_FunctionType v \<Longrightarrow> callable_py v"
  by (cases v) simp_all

lemma failure_kind_messages:
  "failure_kind (RuntimeError ''missing contributor'') = Some MissingContributor"
  "failure_kind (RuntimeError ''missing contributor information'') = Some MissingContributor"
  "failure_kind (RuntimeError ''missing training method'') = Some MissingTrainMethod"
  "failure_kind (RuntimeError ''missing classification method'') = Some MissingClassifyMethod"
  by simp_all

section \<open>The root class is exempt\<close>

text \<open>
  C1. For every candidate class definition whose name is the root name \<open>Algorithm\<close>,
  validation succeeds and the class is produced, whatever the namespace \<open>attrs\<close> and the
  bases are: none of the three checks is made, the result is the class that the host
  constructor builds from the very arguments of the call, in the state it leaves. This
  holds for the metaclass of either notebook.
\<close>

theorem root_name_exempt:
  "MetaAlgorithm_new type_new ''Algorithm'' bases attrs s =
     (Inr (fst (type_new ''Algorithm'' bases attrs s)),
      snd (type_new ''Algorithm'' bases attrs s))
   \<and> MetaAlgorithm_new_ipynb type_new ''Algorithm'' bases attrs s =
     (Inr (fst (type_new ''Algorithm'' bases attrs s)),
      snd (type_new ''Algorithm'' bases attrs s))"
  by (simp add: MetaAlgorithm_new_def MetaAlgorithm_new_ipynb_def super_new_def
      split: prod.split)

theorem root_name_exempt_witness:
  "MetaAlgorithm_new type_new_model ''Algorithm'' [] Map.empty [] =
     (Inr (Descriptor ''Algorithm'' [] Map.empty), [Descriptor ''Algorithm'' [] Map.empty])
   \<and> MetaAlgorithm_new_ipynb type_new_model ''Algorithm'' [] Map.empty [] =
     (Inr (Descriptor ''Algorithm'' [] Map.empty), [Descriptor ''Algorithm'' [] Map.empty])"
  using root_name_exempt [of type_new_model "[]" Map.empty "[]"]
  by (simp add: type_new_model_def)

section \<open>The three rejections\<close>

text \<open>
  C2. For every candidate whose name is not \<open>Algorithm\<close> and whose namespace either has
  no key \<open>contributor\<close> or maps it to a value that is not a string, validation fails with
  the error of the contributor rule (failure kind \<open>MissingContributor\<close>) and no class is
  produced: the result is the exception, and the state is the one before the call, the
  host constructor not having run. The two notebooks raise the same \<open>RuntimeError\<close>
  with their two messages.
\<close>

theorem missing_contributor_rejected:
  assumes "clsname \<noteq> ''Algorithm''"
    and "attrs ''contributor'' = None
         \<or> (\<exists>v. attrs ''contributor'' = Some v \<and> \<not> isinstance_str v)"
  shows "MetaAlgorithm_new type_new clsname bases attrs s =
           (Inl (RuntimeError ''missing contributor''), s)
         \<and> MetaAlgorithm_new_ipynb type_new clsname bases attrs s =
           (Inl (RuntimeError ''missing contributor information''), s)
         \<and> failure_kind (RuntimeError ''missing contributor'') = Some MissingContributor
         \<and> failure_kind (RuntimeError ''missing contributor information'')
             = Some MissingContributor"
proof -
  from assms(2) have "not_in_or_not_isinstance attrs ''contributor'' isinstance_str"
    by (auto simp: not_in_or_not_isinstance_def)
  with assms(1) show ?thesis
    by (simp add: MetaAlgorithm_new_def MetaAlgorithm_new_ipynb_def raise_def)
qed

theorem missing_contributor_rejected_witness:
  "MetaAlgorithm_new type_new_model ''Guess'' [Descriptor ''Algorithm'' [] Map.empty]
     [''classify'' \<mapsto> PyFunction ''classify''] [Descriptor ''Algorithm'' [] Map.empty] =
     (Inl (RuntimeError ''missing contributor''), [Descriptor ''Algorithm'' [] Map.empty])
   \<and> MetaAlgorithm_new_ipynb type_new_model ''Guess'' [Descriptor ''Algorithm'' [] Map.empty]
     [''contributor'' \<mapsto> PyInt 7] [Descriptor ''Algorithm'' [] Map.empty] =
     (Inl (RuntimeError ''missing contributor information''),
      [Descriptor ''Algorithm'' [] Map.empty])"
proof -
  have name: "''Guess'' \<noteq> ''Algorithm''"
    by simp
  have absent: "[''classify'' \<mapsto> PyFunction ''classify''] ''contributor'' = None
      \<or> (\<exists>v. [''classify'' \<mapsto> PyFunction ''classify''] ''contributor'' = Some v
              \<and> \<not> isinstance_str v)"
    by simp
  have number: "[''contributor'' \<mapsto> PyInt 7] ''contributor'' = None
      \<or> (\<exists>v. [''contributor'' \<mapsto> PyInt 7] ''contributor'' = Some v \<and> \<not> isinstance_str v)"
    by simp
  show ?thesis
    using
      missing_contributor_rejected [where attrs = "[''classify'' \<mapsto> PyFunction ''classify'']"
        and type_new = type_new_model and bases = "[Descriptor ''Algorithm'' [] Map.empty]"
        and s = "[Descriptor ''Algorithm'' [] Map.empty]", OF name absent]
      missing_contributor_rejected [where attrs = "[''contributor'' \<mapsto> PyInt 7]"
        and type_new = type_new_model and bases = "[Descriptor ''Algorithm'' [] Map.empty]"
        and s = "[Descriptor ''Algorithm'' [] Map.empty]", OF name number]
    by blast
qed

text \<open>
  C3. For every candidate whose name is not \<open>Algorithm\<close> and whose namespace maps
  \<open>contributor\<close> to a string but either has no key \<open>train\<close> or maps it to a value that is
  not callable, validation fails with the error of the train rule (failure kind
  \<open>MissingTrainMethod\<close>) and no class is produced.
\<close>

theorem missing_train_rejected:
  assumes "clsname \<noteq> ''Algorithm''"
    and "attrs ''contributor'' = Some c" and "isinstance_str c"
    and "attrs ''train'' = None \<or> (\<exists>v. attrs ''train'' = Some v \<and> \<not> callable_py v)"
  shows "MetaAlgorithm_new type_new clsname bases attrs s =
           (Inl (RuntimeError ''missing training method''), s)
         \<and> MetaAlgorithm_new_ipynb type_new clsname bases attrs s =
           (Inl (RuntimeError ''missing training method''), s)
         \<and> failure_kind (RuntimeError ''missing training method'') = Some MissingTrainMethod"
proof -
  have contributor: "\<not> not_in_or_not_isinstance attrs ''contributor'' isinstance_str"
    using assms(2,3) by (simp add: not_in_or_not_isinstance_Some)
  have train: "not_in_or_not_isinstance attrs ''train'' isinstance_FunctionType"
    using assms(4) FunctionType_callable
    by (auto simp: not_in_or_not_isinstance_def)
  from assms(1) contributor train show ?thesis
    by (simp add: MetaAlgorithm_new_def MetaAlgorithm_new_ipynb_def raise_def)
qed

theorem missing_train_rejected_witness:
  "MetaAlgorithm_new type_new_model ''Guess'' []
     [''contributor'' \<mapsto> PyStr ''Author'', ''classify'' \<mapsto> PyFunction ''classify''] [] =
     (Inl (RuntimeError ''missing training method''), [])
   \<and> MetaAlgorithm_new_ipynb type_new_model ''Guess'' []
     [''contributor'' \<mapsto> PyStr ''Author'', ''train'' \<mapsto> PyInt 3] [] =
     (Inl (RuntimeError ''missing training method''), [])"
proof -
  have name: "''Guess'' \<noteq> ''Algorithm''"
    by simp
  have c1: "[''contributor'' \<mapsto> PyStr ''Author'', ''classify'' \<mapsto> PyFunction ''classify'']
      ''contributor'' = Some (PyStr ''Author'')"
    by simp
  have c2: "[''contributor'' \<mapsto> PyStr ''Author'', ''train'' \<mapsto> PyInt 3]
      ''contributor'' = Some (PyStr ''Author'')"
    by simp
  have str: "isinstance_str (PyStr ''Author'')"
    by simp
  have t1: "[''contributor'' \<mapsto> PyStr ''Author'', ''classify'' \<mapsto> PyFunction ''classify'']
        ''train'' = None
      \<or> (\<exists>v. [''contributor'' \<mapsto> PyStr ''Author'', ''classify'' \<mapsto> PyFunction ''classify'']
                ''train'' = Some v \<and> \<not> callable_py v)"
    by simp
  have t2: "[''contributor'' \<mapsto> PyStr ''Author'', ''train'' \<mapsto> PyInt 3] ''train'' = None
      \<or> (\<exists>v. [''contributor'' \<mapsto> PyStr ''Author'', ''train'' \<mapsto> PyInt 3] ''train'' = Some v
              \<and> \<not> callable_py v)"
    by simp
  show ?thesis
    using
      missing_train_rejected [where attrs =
          "[''contributor'' \<mapsto> PyStr ''Author'', ''classify'' \<mapsto> PyFunction ''classify'']"
        and type_new = type_new_model and bases = "[]" and s = "[]", OF name c1 str t1]
      missing_train_rejected [where attrs =
          "[''contributor'' \<mapsto> PyStr ''Author'', ''train'' \<mapsto> PyInt 3]"
        and type_new = type_new_model and bases = "[]" and s = "[]", OF name c2 str t2]
    by blast
qed

text \<open>
  C4. For every candidate whose name is not \<open>Algorithm\<close> and whose namespace maps
  \<open>contributor\<close> to a string and \<open>train\<close> to a value that passes the train rule (a plain
  function, as the rule tests it), but either has no key \<open>classify\<close> or maps it to a value
  that is not callable, validation fails with the error of the classify rule (failure
  kind \<open>MissingClassifyMethod\<close>) and no class is produced.
\<close>

theorem missing_classify_rejected:
  assumes "clsname \<noteq> ''Algorithm''"
    and "attrs ''contributor'' = Some c" and "isinstance_str c"
    and "attrs ''train'' = Some t" and "isinstance_FunctionType t"
    and "attrs ''classify'' = None \<or> (\<exists>v. attrs ''classify'' = Some v \<and> \<not> callable_py v)"
  shows "MetaAlgorithm_new type_new clsname bases attrs s =
           (Inl (RuntimeError ''missing classification method''), s)
         \<and> MetaAlgorithm_new_ipynb type_new clsname bases attrs s =
           (Inl (RuntimeError ''missing classification method''), s)
         \<and> failure_kind (RuntimeError ''missing classification method'')
             = Some MissingClassifyMethod"
proof -
  have contributor: "\<not> not_in_or_not_isinstance attrs ''contributor'' isinstance_str"
    using assms(2,3) by (simp add: not_in_or_not_isinstance_Some)
  have train: "\<not> not_in_or_not_isinstance attrs ''train'' isinstance_FunctionType"
    using assms(4,5) by (simp add: not_in_or_not_isinstance_Some)
  have classify: "not_in_or_not_isinstance attrs ''classify'' isinstance_FunctionType"
    using assms(6) FunctionType_callable
    by (auto simp: not_in_or_not_isinstance_def)
  from assms(1) contributor train classify show ?thesis
    by (simp add: MetaAlgorithm_new_def MetaAlgorithm_new_ipynb_def raise_def)
qed

theorem missing_classify_rejected_witness:
  "MetaAlgorithm_new type_new_model ''Guess'' []
     [''contributor'' \<mapsto> PyStr ''Author'', ''train'' \<mapsto> PyFunction ''train''] [] =
     (Inl (RuntimeError ''missing classification method''), [])
   \<and> MetaAlgorithm_new_ipynb type_new_model ''Guess'' []
     [''contributor'' \<mapsto> PyStr ''Author'', ''train'' \<mapsto> PyFunction ''train'',
      ''classify'' \<mapsto> PyNone] [] =
     (Inl (RuntimeError ''missing classification method''), [])"
proof -
  have name: "''Guess'' \<noteq> ''Algorithm''"
    by simp
  have c1: "[''contributor'' \<mapsto> PyStr ''Author'', ''train'' \<mapsto> PyFunction ''train'']
      ''contributor'' = Some (PyStr ''Author'')"
    by simp
  have c2: "[''contributor'' \<mapsto> PyStr ''Author'', ''train'' \<mapsto> PyFunction ''train'',
      ''classify'' \<mapsto> PyNone] ''contributor'' = Some (PyStr ''Author'')"
    by simp
  have str: "isinstance_str (PyStr ''Author'')"
    by simp
  have t1: "[''contributor'' \<mapsto> PyStr ''Author'', ''train'' \<mapsto> PyFunction ''train'']
      ''train'' = Some (PyFunction ''train'')"
    by simp
  have t2: "[''contributor'' \<mapsto> PyStr ''Author'', ''train'' \<mapsto> PyFunction ''train'',
      ''classify'' \<mapsto> PyNone] ''train'' = Some (PyFunction ''train'')"
    by simp
  have fn: "isinstance_FunctionType (PyFunction ''train'')"
    by simp
  have k1: "[''contributor'' \<mapsto> PyStr ''Author'', ''train'' \<mapsto> PyFunction ''train'']
        ''classify'' = None
      \<or> (\<exists>v. [''contributor'' \<mapsto> PyStr ''Author'', ''train'' \<mapsto> PyFunction ''train'']
                ''classify'' = Some v \<and> \<not> callable_py v)"
    by simp
  have k2: "[''contributor'' \<mapsto> PyStr ''Author'', ''train'' \<mapsto> PyFunction ''train'',
        ''classify'' \<mapsto> PyNone] ''classify'' = None
      \<or> (\<exists>v. [''contributor'' \<mapsto> PyStr ''Author'', ''train'' \<mapsto> PyFunction ''train'',
                ''classify'' \<mapsto> PyNone] ''classify'' = Some v \<and> \<not> callable_py v)"
    by simp
  show ?thesis
    using
      missing_classify_rejected [where attrs =
          "[''contributor'' \<mapsto> PyStr ''Author'', ''train'' \<mapsto> PyFunction ''train'']"
        and type_new = type_new_model and bases = "[]" and s = "[]", OF name c1 str t1 fn k1]
      missing_classify_rejected [where attrs =
          "[''contributor'' \<mapsto> PyStr ''Author'', ''train'' \<mapsto> PyFunction ''train'',
            ''classify'' \<mapsto> PyNone]"
        and type_new = type_new_model and bases = "[]" and s = "[]", OF name c2 str t2 fn k2]
    by blast
qed

text \<open>
  C10. The type test of the train rule and of the classify rule is
  \<open>isinstance(v, FunctionType)\<close>: being callable is not enough. For every candidate whose
  name is not \<open>Algorithm\<close> and whose \<open>contributor\<close> is a string, a \<open>train\<close> value that is
  callable but not a plain function (a built-in function, a class) makes validation fail
  with the error of the train rule, and so does a \<open>staticmethod\<close> or \<open>classmethod\<close>
  object; with a plain function for \<open>train\<close>, a \<open>classify\<close> value of those sorts makes
  it fail with the error of the classify rule.
\<close>

theorem plain_function_required:
  assumes "clsname \<noteq> ''Algorithm''"
    and "attrs ''contributor'' = Some c" and "isinstance_str c"
  shows "(\<forall>v. attrs ''train'' = Some v
              \<and> (callable_py v \<and> \<not> isinstance_FunctionType v
                 \<or> (\<exists>f. v = PyStaticMethod f) \<or> (\<exists>f. v = PyClassMethod f)) \<longrightarrow>
            MetaAlgorithm_new type_new clsname bases attrs s =
              (Inl (RuntimeError ''missing training method''), s)
            \<and> MetaAlgorithm_new_ipynb type_new clsname bases attrs s =
              (Inl (RuntimeError ''missing training method''), s))
         \<and> (\<forall>t v. attrs ''train'' = Some t \<and> isinstance_FunctionType t
              \<and> attrs ''classify'' = Some v
              \<and> (callable_py v \<and> \<not> isinstance_FunctionType v
                 \<or> (\<exists>f. v = PyStaticMethod f) \<or> (\<exists>f. v = PyClassMethod f)) \<longrightarrow>
            MetaAlgorithm_new type_new clsname bases attrs s =
              (Inl (RuntimeError ''missing classification method''), s)
            \<and> MetaAlgorithm_new_ipynb type_new clsname bases attrs s =
              (Inl (RuntimeError ''missing classification method''), s))"
proof -
  have contributor: "\<not> not_in_or_not_isinstance attrs ''contributor'' isinstance_str"
    using assms(2,3) by (simp add: not_in_or_not_isinstance_Some)
  have kind: "\<not> isinstance_FunctionType v"
    if "callable_py v \<and> \<not> isinstance_FunctionType v
        \<or> (\<exists>f. v = PyStaticMethod f) \<or> (\<exists>f. v = PyClassMethod f)" for v
    using that by auto
  show ?thesis
  proof (intro conjI allI impI)
    fix v
    assume "attrs ''train'' = Some v
      \<and> (callable_py v \<and> \<not> isinstance_FunctionType v
         \<or> (\<exists>f. v = PyStaticMethod f) \<or> (\<exists>f. v = PyClassMethod f))"
    then have train: "not_in_or_not_isinstance attrs ''train'' isinstance_FunctionType"
      using kind [of v] by (simp add: not_in_or_not_isinstance_Some)
    from assms(1) contributor train
    show "MetaAlgorithm_new type_new clsname bases attrs s =
        (Inl (RuntimeError ''missing training method''), s)"
      and "MetaAlgorithm_new_ipynb type_new clsname bases attrs s =
        (Inl (RuntimeError ''missing training method''), s)"
      by (simp_all add: MetaAlgorithm_new_def MetaAlgorithm_new_ipynb_def raise_def)
  next
    fix t v
    assume h: "attrs ''train'' = Some t \<and> isinstance_FunctionType t
      \<and> attrs ''classify'' = Some v
      \<and> (callable_py v \<and> \<not> isinstance_FunctionType v
         \<or> (\<exists>f. v = PyStaticMethod f) \<or> (\<exists>f. v = PyClassMethod f))"
    then have train: "\<not> not_in_or_not_isinstance attrs ''train'' isinstance_FunctionType"
      by (simp add: not_in_or_not_isinstance_Some)
    from h have classify: "not_in_or_not_isinstance attrs ''classify'' isinstance_FunctionType"
      using kind [of v] by (simp add: not_in_or_not_isinstance_Some)
    from assms(1) contributor train classify
    show "MetaAlgorithm_new type_new clsname bases attrs s =
        (Inl (RuntimeError ''missing classification method''), s)"
      and "MetaAlgorithm_new_ipynb type_new clsname bases attrs s =
        (Inl (RuntimeError ''missing classification method''), s)"
      by (simp_all add: MetaAlgorithm_new_def MetaAlgorithm_new_ipynb_def raise_def)
  qed
qed

theorem plain_function_required_witness:
  "callable_py (PyBuiltinFunction ''len'')
   \<and> MetaAlgorithm_new type_new_model ''Guess'' []
       [''contributor'' \<mapsto> PyStr ''Author'', ''train'' \<mapsto> PyBuiltinFunction ''len'',
        ''classify'' \<mapsto> PyFunction ''classify''] [] =
       (Inl (RuntimeError ''missing training method''), [])
   \<and> callable_py (PyClass ''Classifier'')
   \<and> MetaAlgorithm_new_ipynb type_new_model ''Guess'' []
       [''contributor'' \<mapsto> PyStr ''Author'', ''train'' \<mapsto> PyFunction ''train'',
        ''classify'' \<mapsto> PyClass ''Classifier''] [] =
       (Inl (RuntimeError ''missing classification method''), [])"
proof -
  let ?a1 = "[''contributor'' \<mapsto> PyStr ''Author'', ''train'' \<mapsto> PyBuiltinFunction ''len'',
    ''classify'' \<mapsto> PyFunction ''classify'']"
  let ?a2 = "[''contributor'' \<mapsto> PyStr ''Author'', ''train'' \<mapsto> PyFunction ''train'',
    ''classify'' \<mapsto> PyClass ''Classifier'']"
  have name: "''Guess'' \<noteq> ''Algorithm''"
    by simp
  have c1: "?a1 ''contributor'' = Some (PyStr ''Author'')"
    by simp
  have c2: "?a2 ''contributor'' = Some (PyStr ''Author'')"
    by simp
  have str: "isinstance_str (PyStr ''Author'')"
    by simp
  have t1: "?a1 ''train'' = Some (PyBuiltinFunction ''len'')"
    by simp
  have t2: "?a2 ''train'' = Some (PyFunction ''train'')"
    by simp
  have k2: "?a2 ''classify'' = Some (PyClass ''Classifier'')"
    by simp
  show ?thesis
    using
      plain_function_required [where attrs = ?a1 and type_new = type_new_model
        and bases = "[]" and s = "[]", OF name c1 str]
      plain_function_required [where attrs = ?a2 and type_new = type_new_model
        and bases = "[]" and s = "[]", OF name c2 str]
      t1 t2 k2
    by simp
qed

section \<open>Order of the rules\<close>

lemma first_failure_eq:
  "first_failure attrs =
     (if \<not> has_kind attrs ''contributor'' isinstance_str then Some MissingContributor
      else if \<not> has_kind attrs ''train'' isinstance_FunctionType then Some MissingTrainMethod
      else if \<not> has_kind attrs ''classify'' isinstance_FunctionType
        then Some MissingClassifyMethod
      else None)"
  by (simp add: first_failure_def validation_rules_def)

lemma not_in_or_not_isinstance_has_kind:
  "not_in_or_not_isinstance attrs key T = (\<not> has_kind attrs key T)"
  by (simp add: not_in_or_not_isinstance_def has_kind_def split: option.split)

text \<open>
  C5. For every candidate whose name is not \<open>Algorithm\<close> the three rules are applied in
  the order contributor, train, classify, and the call ends at the first rule that
  fails, with the error of that rule: the outcome is the failure kind of the first
  failing rule of the list, in the state before the call, and the class of the host
  constructor when no rule fails. The rules after the failing one are not looked at:
  when the contributor rule fails the result is the same for every namespace with the
  same \<open>contributor\<close> entry, and when the train rule is the first to fail it is the same
  for every namespace with the same \<open>contributor\<close> and \<open>train\<close> entries. In particular a
  namespace without \<open>contributor\<close> and without \<open>train\<close> fails with the contributor error.
\<close>

theorem rules_in_order:
  assumes "clsname \<noteq> ''Algorithm''"
  shows "outcome (MetaAlgorithm_new type_new clsname bases attrs s) =
           (case first_failure attrs of
              Some kind \<Rightarrow> (Inl (Some kind), s)
            | None \<Rightarrow> (Inr (fst (type_new clsname bases attrs s)),
                       snd (type_new clsname bases attrs s)))
         \<and> outcome (MetaAlgorithm_new_ipynb type_new clsname bases attrs s) =
           (case first_failure attrs of
              Some kind \<Rightarrow> (Inl (Some kind), s)
            | None \<Rightarrow> (Inr (fst (type_new clsname bases attrs s)),
                       snd (type_new clsname bases attrs s)))
         \<and> (\<forall>attrs'. first_failure attrs = Some MissingContributor
              \<and> attrs' ''contributor'' = attrs ''contributor'' \<longrightarrow>
              MetaAlgorithm_new type_new clsname bases attrs' s =
                MetaAlgorithm_new type_new clsname bases attrs s
              \<and> MetaAlgorithm_new_ipynb type_new clsname bases attrs' s =
                MetaAlgorithm_new_ipynb type_new clsname bases attrs s)
         \<and> (\<forall>attrs'. first_failure attrs = Some MissingTrainMethod
              \<and> attrs' ''contributor'' = attrs ''contributor''
              \<and> attrs' ''train'' = attrs ''train'' \<longrightarrow>
              MetaAlgorithm_new type_new clsname bases attrs' s =
                MetaAlgorithm_new type_new clsname bases attrs s
              \<and> MetaAlgorithm_new_ipynb type_new clsname bases attrs' s =
                MetaAlgorithm_new_ipynb type_new clsname bases attrs s)
         \<and> (attrs ''contributor'' = None \<and> attrs ''train'' = None \<longrightarrow>
              MetaAlgorithm_new type_new clsname bases attrs s =
                (Inl (RuntimeError ''missing contributor''), s)
              \<and> MetaAlgorithm_new_ipynb type_new clsname bases attrs s =
                (Inl (RuntimeError ''missing contributor information''), s))"
proof (intro conjI allI impI)
  show "outcome (MetaAlgorithm_new type_new clsname bases attrs s) =
      (case first_failure attrs of
         Some kind \<Rightarrow> (Inl (Some kind), s)
       | None \<Rightarrow> (Inr (fst (type_new clsname bases attrs s)),
                  snd (type_new clsname bases attrs s)))"
    using assms
    by (simp add: MetaAlgorithm_new_def first_failure_eq not_in_or_not_isinstance_has_kind
        outcome_def raise_def super_new_def split: prod.split)
  show "outcome (MetaAlgorithm_new_ipynb type_new clsname bases attrs s) =
      (case first_failure attrs of
         Some kind \<Rightarrow> (Inl (Some kind), s)
       | None \<Rightarrow> (Inr (fst (type_new clsname bases attrs s)),
                  snd (type_new clsname bases attrs s)))"
    using assms
    by (simp add: MetaAlgorithm_new_ipynb_def first_failure_eq
        not_in_or_not_isinstance_has_kind outcome_def raise_def super_new_def
        split: prod.split)
next
  fix attrs'
  assume h: "first_failure attrs = Some MissingContributor
    \<and> attrs' ''contributor'' = attrs ''contributor''"
  then have here: "not_in_or_not_isinstance attrs ''contributor'' isinstance_str"
    by (simp add: first_failure_eq not_in_or_not_isinstance_has_kind split: if_splits)
  with h have there: "not_in_or_not_isinstance attrs' ''contributor'' isinstance_str"
    by (simp add: not_in_or_not_isinstance_def)
  from assms here there
  show "MetaAlgorithm_new type_new clsname bases attrs' s =
      MetaAlgorithm_new type_new clsname bases attrs s"
    and "MetaAlgorithm_new_ipynb type_new clsname bases attrs' s =
      MetaAlgorithm_new_ipynb type_new clsname bases attrs s"
    by (simp_all add: MetaAlgorithm_new_def MetaAlgorithm_new_ipynb_def)
next
  fix attrs'
  assume h: "first_failure attrs = Some MissingTrainMethod
    \<and> attrs' ''contributor'' = attrs ''contributor''
    \<and> attrs' ''train'' = attrs ''train''"
  then have here: "\<not> not_in_or_not_isinstance attrs ''contributor'' isinstance_str"
    "not_in_or_not_isinstance attrs ''train'' isinstance_FunctionType"
    by (simp_all add: first_failure_eq not_in_or_not_isinstance_has_kind split: if_splits)
  with h have there: "\<not> not_in_or_not_isinstance attrs' ''contributor'' isinstance_str"
    "not_in_or_not_isinstance attrs' ''train'' isinstance_FunctionType"
    by (simp_all add: not_in_or_not_isinstance_def)
  from assms here there
  show "MetaAlgorithm_new type_new clsname bases attrs' s =
      MetaAlgorithm_new type_new clsname bases attrs s"
    and "MetaAlgorithm_new_ipynb type_new clsname bases attrs' s =
      MetaAlgorithm_new_ipynb type_new clsname bases attrs s"
    by (simp_all add: MetaAlgorithm_new_def MetaAlgorithm_new_ipynb_def)
next
  assume "attrs ''contributor'' = None \<and> attrs ''train'' = None"
  then have "not_in_or_not_isinstance attrs ''contributor'' isinstance_str"
    by (simp add: not_in_or_not_isinstance_None)
  with assms
  show "MetaAlgorithm_new type_new clsname bases attrs s =
      (Inl (RuntimeError ''missing contributor''), s)"
    and "MetaAlgorithm_new_ipynb type_new clsname bases attrs s =
      (Inl (RuntimeError ''missing contributor information''), s)"
    by (simp_all add: MetaAlgorithm_new_def MetaAlgorithm_new_ipynb_def raise_def)
qed

theorem rules_in_order_witness:
  "first_failure [''classify'' \<mapsto> PyFunction ''classify''] = Some MissingContributor
   \<and> outcome (MetaAlgorithm_new type_new_model ''Guess'' [Descriptor ''Algorithm'' [] Map.empty]
       [''classify'' \<mapsto> PyFunction ''classify''] []) = (Inl (Some MissingContributor), [])
   \<and> MetaAlgorithm_new_ipynb type_new_model ''Guess'' [Descriptor ''Algorithm'' [] Map.empty]
       [''classify'' \<mapsto> PyFunction ''classify''] [] =
       (Inl (RuntimeError ''missing contributor information''), [])"
proof -
  have name: "''Guess'' \<noteq> ''Algorithm''"
    by simp
  have first: "first_failure [''classify'' \<mapsto> PyFunction ''classify''] = Some MissingContributor"
    by (simp add: first_failure_eq has_kind_def)
  show ?thesis
    using first
      rules_in_order [where attrs = "[''classify'' \<mapsto> PyFunction ''classify'']"
        and type_new = type_new_model and bases = "[Descriptor ''Algorithm'' [] Map.empty]"
        and s = "[]", OF name, THEN conjunct1]
      rules_in_order [where attrs = "[''classify'' \<mapsto> PyFunction ''classify'']"
        and type_new = type_new_model and bases = "[Descriptor ''Algorithm'' [] Map.empty]"
        and s = "[]", OF name, THEN conjunct2, THEN conjunct2, THEN conjunct2, THEN conjunct2]
    by simp
qed

section \<open>Accepted definitions\<close>

text \<open>
  C6. For every candidate on which validation succeeds, because its name is \<open>Algorithm\<close>
  or because its namespace satisfies the three rules, the metaclass calls the host
  constructor with exactly the name, the bases and the namespace it was given, in the
  state it was given, and returns the class and the state of that call as they are.
  With the constructor of the data model, the class has the name, the bases and the
  attribute table of the call.
\<close>

theorem accepted_pass_through:
  assumes "clsname = ''Algorithm''
           \<or> (has_kind attrs ''contributor'' isinstance_str
              \<and> has_kind attrs ''train'' isinstance_FunctionType
              \<and> has_kind attrs ''classify'' isinstance_FunctionType)"
  shows "MetaAlgorithm_new type_new clsname bases attrs s =
           (Inr (fst (type_new clsname bases attrs s)), snd (type_new clsname bases attrs s))
         \<and> MetaAlgorithm_new_ipynb type_new clsname bases attrs s =
           (Inr (fst (type_new clsname bases attrs s)), snd (type_new clsname bases attrs s))
         \<and> (\<exists>d. fst (MetaAlgorithm_new type_new_model clsname parents attrs registry) = Inr d
              \<and> d_name d = clsname \<and> d_bases d = parents \<and> d_attrs d = attrs)
         \<and> (\<exists>d. fst (MetaAlgorithm_new_ipynb type_new_model clsname parents attrs registry) = Inr d
              \<and> d_name d = clsname \<and> d_bases d = parents \<and> d_attrs d = attrs)"
proof -
  have new: "MetaAlgorithm_new tn clsname b attrs st =
      (Inr (fst (tn clsname b attrs st)), snd (tn clsname b attrs st))"
    for tn :: "('x, 'y, 'z) type_new" and b st
    using assms
    by (auto simp: MetaAlgorithm_new_def not_in_or_not_isinstance_has_kind super_new_def
        split: prod.split)
  have ipynb: "MetaAlgorithm_new_ipynb tn clsname b attrs st =
      (Inr (fst (tn clsname b attrs st)), snd (tn clsname b attrs st))"
    for tn :: "('x, 'y, 'z) type_new" and b st
    using assms
    by (auto simp: MetaAlgorithm_new_ipynb_def not_in_or_not_isinstance_has_kind super_new_def
        split: prod.split)
  show ?thesis
    by (simp add: new ipynb type_new_model_def)
qed

theorem accepted_pass_through_witness:
  "MetaAlgorithm_new type_new_model ''Guess'' [Descriptor ''Algorithm'' [] Map.empty]
     [''contributor'' \<mapsto> PyStr ''Author'', ''train'' \<mapsto> PyFunction ''train'',
      ''classify'' \<mapsto> PyFunction ''classify''] [Descriptor ''Algorithm'' [] Map.empty] =
     (Inr (Descriptor ''Guess'' [Descriptor ''Algorithm'' [] Map.empty]
        [''contributor'' \<mapsto> PyStr ''Author'', ''train'' \<mapsto> PyFunction ''train'',
         ''classify'' \<mapsto> PyFunction ''classify'']),
      [Descriptor ''Algorithm'' [] Map.empty,
       Descriptor ''Guess'' [Descriptor ''Algorithm'' [] Map.empty]
        [''contributor'' \<mapsto> PyStr ''Author'', ''train'' \<mapsto> PyFunction ''train'',
         ''classify'' \<mapsto> PyFunction ''classify'']])"
proof -
  let ?a = "[''contributor'' \<mapsto> PyStr ''Author'', ''train'' \<mapsto> PyFunction ''train'',
    ''classify'' \<mapsto> PyFunction ''classify'']"
  have rules: "''Guess'' = ''Algorithm''
      \<or> (has_kind ?a ''contributor'' isinstance_str
         \<and> has_kind ?a ''train'' isinstance_FunctionType
         \<and> has_kind ?a ''classify'' isinstance_FunctionType)"
    by (simp add: has_kind_def)
  show ?thesis
    using accepted_pass_through [where attrs = ?a and type_new = type_new_model
        and bases = "[Descriptor ''Algorithm'' [] Map.empty]"
        and s = "[Descriptor ''Algorithm'' [] Map.empty]", OF rules, THEN conjunct1]
    by (simp add: type_new_model_def)
qed

section \<open>Rejected definitions\<close>

lemma raised_state_unchanged:
  assumes "new = MetaAlgorithm_new type_new \<or> new = MetaAlgorithm_new_ipynb type_new"
    and "fst (new clsname bases attrs s) = Inl e"
  shows "new clsname bases attrs s = (Inl e, s)"
  using assms
  by (auto simp: MetaAlgorithm_new_def MetaAlgorithm_new_ipynb_def raise_def super_new_def
      split: if_splits prod.splits)

lemma definition_run_Rejected: "definition_run k new (Rejected e, s) = (Rejected e, s)"
  by (cases k) simp_all

text \<open>
  C7. For every definition attempt that fails validation, with the metaclass of either
  notebook, the attempt ends in the state \<open>Rejected\<close> and stays there: the step from the
  collected definition leads to \<open>Rejected\<close>, \<open>Rejected\<close> has no step, and however many
  steps are made the attempt never holds a class object (so no instance of it can be
  constructed) and the state of the interpreter is the one before the attempt, the host
  constructor never having run.
\<close>

theorem rejected_is_terminal:
  assumes "new = MetaAlgorithm_new type_new \<or> new = MetaAlgorithm_new_ipynb type_new"
    and "fst (new clsname bases attrs s) = Inl e"
  shows "definition_step new (Unvalidated clsname bases attrs, s) = Some (Rejected e, s)
         \<and> definition_step new (Rejected e, s) = None
         \<and> (\<forall>k. definition_run (Suc k) new (Unvalidated clsname bases attrs, s)
                = (Rejected e, s))
         \<and> (\<forall>k. class_of (fst (definition_run k new (Unvalidated clsname bases attrs, s)))
                = None)
         \<and> (\<forall>k. snd (definition_run k new (Unvalidated clsname bases attrs, s)) = s)"
proof -
  have raised: "new clsname bases attrs s = (Inl e, s)"
    using assms by (rule raised_state_unchanged)
  then have step: "definition_step new (Unvalidated clsname bases attrs, s)
      = Some (Rejected e, s)"
    by simp
  then have run: "definition_run (Suc k) new (Unvalidated clsname bases attrs, s)
      = (Rejected e, s)" for k
    by (simp add: definition_run_Rejected)
  have no_class: "class_of (fst (definition_run k new (Unvalidated clsname bases attrs, s)))
      = None" for k
  proof (cases k)
    case 0
    then show ?thesis by simp
  next
    case (Suc j)
    then show ?thesis using run [of j] by simp
  qed
  have state: "snd (definition_run k new (Unvalidated clsname bases attrs, s)) = s" for k
  proof (cases k)
    case 0
    then show ?thesis by simp
  next
    case (Suc j)
    then show ?thesis using run [of j] by simp
  qed
  from step run no_class state show ?thesis
    by simp
qed

theorem rejected_is_terminal_witness:
  "definition_run (Suc (Suc (Suc 0))) (MetaAlgorithm_new type_new_model)
     (Unvalidated ''Guess'' [Descriptor ''Algorithm'' [] Map.empty]
        [''classify'' \<mapsto> PyFunction ''classify''], [Descriptor ''Algorithm'' [] Map.empty]) =
     (Rejected (RuntimeError ''missing contributor''), [Descriptor ''Algorithm'' [] Map.empty])
   \<and> definition_step (MetaAlgorithm_new type_new_model)
       (Rejected (RuntimeError ''missing contributor''),
        [Descriptor ''Algorithm'' [] Map.empty]) = None"
proof -
  let ?new = "MetaAlgorithm_new type_new_model ::
    (descriptor list, descriptor list, descriptor) metaclass_new"
  have impl: "?new = MetaAlgorithm_new type_new_model
      \<or> ?new = MetaAlgorithm_new_ipynb type_new_model"
    by simp
  have fails: "fst (?new ''Guess'' [Descriptor ''Algorithm'' [] Map.empty]
      [''classify'' \<mapsto> PyFunction ''classify''] [Descriptor ''Algorithm'' [] Map.empty])
      = Inl (RuntimeError ''missing contributor'')"
    by (simp add: MetaAlgorithm_new_def not_in_or_not_isinstance_def raise_def)
  note terminal =
      rejected_is_terminal [where new = ?new and type_new = type_new_model
        and clsname = "''Guess''" and bases = "[Descriptor ''Algorithm'' [] Map.empty]"
        and attrs = "[''classify'' \<mapsto> PyFunction ''classify'']"
        and s = "[Descriptor ''Algorithm'' [] Map.empty]"
        and e = "RuntimeError ''missing contributor''", OF impl fails]
  have run: "definition_run (Suc (Suc (Suc 0))) ?new
      (Unvalidated ''Guess'' [Descriptor ''Algorithm'' [] Map.empty]
         [''classify'' \<mapsto> PyFunction ''classify''], [Descriptor ''Algorithm'' [] Map.empty]) =
      (Rejected (RuntimeError ''missing contributor''), [Descriptor ''Algorithm'' [] Map.empty])"
    using terminal [THEN conjunct2, THEN conjunct2, THEN conjunct1]
    by (rule spec)
  have stop: "definition_step ?new
      (Rejected (RuntimeError ''missing contributor''),
       [Descriptor ''Algorithm'' [] Map.empty]) = None"
    using terminal [THEN conjunct2, THEN conjunct1] .
  from run stop show ?thesis
    by (rule conjI)
qed

section \<open>Determinism\<close>

lemma verdict_state_independent:
  "verdict (fst (MetaAlgorithm_new type_new clsname bases attrs s)) =
   verdict (fst (MetaAlgorithm_new type_new' clsname bases' attrs s'))"
  "verdict (fst (MetaAlgorithm_new_ipynb type_new clsname bases attrs s)) =
   verdict (fst (MetaAlgorithm_new_ipynb type_new' clsname bases' attrs s'))"
  by (simp_all add: MetaAlgorithm_new_def MetaAlgorithm_new_ipynb_def raise_def super_new_def
      split: prod.split)

lemma revalidate_replicate:
  assumes "\<And>s s'. verdict (fst (new clsname bases attrs s)) = v"
  shows "revalidate k new clsname bases attrs s = replicate k v"
proof (induction k arbitrary: s)
  case 0
  show ?case by simp
next
  case (Suc k)
  have "verdict (fst (new clsname bases attrs s)) = v"
    by (rule assms)
  with Suc.IH show ?case
    by (cases "new clsname bases attrs s") simp
qed

text \<open>
  C8. Validation is deterministic and idempotent. For every name, bases and namespace,
  calling the metaclass of either notebook any number \<open>k\<close> of times in a row, each call in
  the state the previous one left, gives \<open>k\<close> times the same verdict, the same success or
  the same exception; and that verdict is the one of a call in any other state and with
  any other host constructor: the decision reads the name and the namespace only.
\<close>

theorem validation_deterministic:
  "revalidate k (MetaAlgorithm_new type_new) clsname bases attrs s =
     replicate k (verdict (fst (MetaAlgorithm_new type_new' clsname bases attrs s')))
   \<and> revalidate k (MetaAlgorithm_new_ipynb type_new) clsname bases attrs s =
     replicate k (verdict (fst (MetaAlgorithm_new_ipynb type_new' clsname bases attrs s')))"
proof
  show "revalidate k (MetaAlgorithm_new type_new) clsname bases attrs s =
      replicate k (verdict (fst (MetaAlgorithm_new type_new' clsname bases attrs s')))"
    by (rule revalidate_replicate) (rule verdict_state_independent(1))
  show "revalidate k (MetaAlgorithm_new_ipynb type_new) clsname bases attrs s =
      replicate k (verdict (fst (MetaAlgorithm_new_ipynb type_new' clsname bases attrs s')))"
    by (rule revalidate_replicate) (rule verdict_state_independent(2))
qed

theorem validation_deterministic_witness:
  "revalidate (Suc (Suc (Suc 0))) (MetaAlgorithm_new type_new_model) ''Guess'' []
     [''contributor'' \<mapsto> PyStr ''Author'', ''train'' \<mapsto> PyFunction ''train'',
      ''classify'' \<mapsto> PyFunction ''classify''] [] = [None, None, None]
   \<and> revalidate (Suc (Suc 0)) (MetaAlgorithm_new_ipynb type_new_model) ''Guess'' []
     [''classify'' \<mapsto> PyFunction ''classify''] [] =
     [Some (RuntimeError ''missing contributor information''),
      Some (RuntimeError ''missing contributor information'')]"
proof -
  let ?ok = "[''contributor'' \<mapsto> PyStr ''Author'', ''train'' \<mapsto> PyFunction ''train'',
    ''classify'' \<mapsto> PyFunction ''classify'']"
  have accepted: "verdict (fst (MetaAlgorithm_new type_new_model ''Guess'' [] ?ok [])) = None"
    by (simp add: MetaAlgorithm_new_def not_in_or_not_isinstance_def super_new_def
        type_new_model_def)
  have rejected: "verdict (fst (MetaAlgorithm_new_ipynb type_new_model ''Guess'' []
      [''classify'' \<mapsto> PyFunction ''classify''] []))
      = Some (RuntimeError ''missing contributor information'')"
    by (simp add: MetaAlgorithm_new_ipynb_def not_in_or_not_isinstance_def raise_def)
  show ?thesis
    using
      validation_deterministic [where k = "Suc (Suc (Suc 0))" and type_new = type_new_model
        and type_new' = type_new_model and clsname = "''Guess''" and bases = "[]"
        and attrs = ?ok and s = "[]" and s' = "[]", THEN conjunct1]
      validation_deterministic [where k = "Suc (Suc 0)" and type_new = type_new_model
        and type_new' = type_new_model and clsname = "''Guess''" and bases = "[]"
        and attrs = "[''classify'' \<mapsto> PyFunction ''classify'']" and s = "[]" and s' = "[]",
        THEN conjunct2]
      accepted rejected
    by simp
qed

section \<open>The two notebooks agree\<close>

text \<open>
  C9. The two implementations of \<open>MetaAlgorithm.__new__\<close> behave alike. For every name,
  bases, namespace, state and host constructor, either both accept and return the same
  class in the same state, or both reject, in the state before the call, with
  exceptions of the same failure kind, one of \<open>MissingContributor\<close>, \<open>MissingTrainMethod\<close>
  and \<open>MissingClassifyMethod\<close>; their outcomes are equal.
\<close>

theorem notebooks_equivalent:
  "outcome (MetaAlgorithm_new type_new clsname bases attrs s) =
     outcome (MetaAlgorithm_new_ipynb type_new clsname bases attrs s)
   \<and> ((\<exists>d s'. MetaAlgorithm_new type_new clsname bases attrs s = (Inr d, s')
               \<and> MetaAlgorithm_new_ipynb type_new clsname bases attrs s = (Inr d, s'))
      \<or> (\<exists>e e' kind. MetaAlgorithm_new type_new clsname bases attrs s = (Inl e, s)
               \<and> MetaAlgorithm_new_ipynb type_new clsname bases attrs s = (Inl e', s)
               \<and> failure_kind e = Some kind \<and> failure_kind e' = Some kind))"
  by (simp add: MetaAlgorithm_new_def MetaAlgorithm_new_ipynb_def outcome_def raise_def
      super_new_def split: prod.split)

theorem notebooks_equivalent_witness:
  "outcome (MetaAlgorithm_new type_new_model ''Guess'' []
     [''classify'' \<mapsto> PyFunction ''classify''] []) = (Inl (Some MissingContributor), [])
   \<and> outcome (MetaAlgorithm_new_ipynb type_new_model ''Guess'' []
     [''classify'' \<mapsto> PyFunction ''classify''] []) = (Inl (Some MissingContributor), [])"
proof -
  have "outcome (MetaAlgorithm_new type_new_model ''Guess'' []
      [''classify'' \<mapsto> PyFunction ''classify''] []) = (Inl (Some MissingContributor), [])"
    by (simp add: MetaAlgorithm_new_def not_in_or_not_isinstance_def outcome_def raise_def)
  then show ?thesis
    using notebooks_equivalent [where type_new = type_new_model and clsname = "''Guess''"
        and bases = "[]" and attrs = "[''classify'' \<mapsto> PyFunction ''classify'']"
        and s = "[]", THEN conjunct1]
    by simp
qed

end
